theory Spec2Isabelle
  imports Complex_Main
begin

section \<open>Python values, exceptions and the world the scripts run in\<close>

text \<open>
  The repository is a set of Python scripts under \<open>scripts/\<close>: four implemented stage
  functions (\<open>download_video\<close>, \<open>transcribe_audio\<close>, \<open>summarize_text\<close>,
  \<open>generate_blog\<close>) and an orchestration module whose functions have the body
  \<^verbatim>\<open>pass\<close>. Strings are modelled as \<open>string\<close> (ASCII text). A Python function that
  may return \<^verbatim>\<open>None\<close> returns an \<open>option\<close>; a raised exception is the left
  summand of the result.
\<close>

type_synonym path = string

text \<open>
  \<^verbatim>\<open>except Exception\<close> catches the instances of \<open>Exception\<close> only; \<open>KeyboardInterrupt\<close>
  and \<open>SystemExit\<close> derive from \<open>BaseException\<close> directly and pass through it.
\<close>

datatype exn = Exception string | BaseException string

record ydl_opts =
  outtmpl :: string
  format :: string
  postprocessors :: "(string \<times> string) list list option"

text \<open>The calls into the external libraries (yt-dlp, whisper, transformers, openai).\<close>

datatype call =
    YoutubeDL ydl_opts
  | ExtractInfo string
  | PrepareFilename
  | Download "string list"
  | LoadModel string
  | Transcribe string
  | Pipeline string string
  | Summarizer string int
  | ChatCompletionCreate string "(string \<times> string) list" int

text \<open>
  The world: the text files by path, the paths at which the operating system refuses to
  create a directory or to open a file for writing, the log of library calls made so
  far, and the current date as \<^verbatim>\<open>datetime.now().strftime("%Y-%m-%d")\<close> gives it.
\<close>

record world =
  files :: "path \<rightharpoonup> string"
  denied :: "path list"
  calls :: "call list"
  today :: string

definition log_call :: "call \<Rightarrow> world \<Rightarrow> world" where
  "log_call c w = w\<lparr>calls := calls w @ [c]\<rparr>"

text \<open>\<^verbatim>\<open>Path(output_dir).mkdir(parents=True, exist_ok=True)\<close>\<close>

definition mkdir :: "world \<Rightarrow> path \<Rightarrow> exn + unit" where
  "mkdir w d =
     (if d \<in> set (denied w) \<or> files w d \<noteq> None then Inl (Exception ''OSError'')
      else Inr ())"

text \<open>\<^verbatim>\<open>with open(p, 'r', encoding='utf-8') as f: f.read()\<close>\<close>

definition read_file :: "world \<Rightarrow> path \<Rightarrow> exn + string" where
  "read_file w p =
     (case files w p of None \<Rightarrow> Inl (Exception ''FileNotFoundError'') | Some s \<Rightarrow> Inr s)"

text \<open>
  \<^verbatim>\<open>open(p, 'w', encoding='utf-8')\<close> creates the file at \<open>p\<close> itself, or truncates it;
  \<^verbatim>\<open>f.write(s)\<close> appends to what the file holds.
\<close>

definition open_w :: "world \<Rightarrow> path \<Rightarrow> world \<times> (exn + unit)" where
  "open_w w p =
     (if p \<in> set (denied w) then (w, Inl (Exception ''OSError''))
      else (w\<lparr>files := (files w)(p \<mapsto> [])\<rparr>, Inr ()))"

definition f_write :: "world \<Rightarrow> path \<Rightarrow> string \<Rightarrow> world" where
  "f_write w p s =
     w\<lparr>files := (files w)(p \<mapsto> (case files w p of None \<Rightarrow> [] | Some old \<Rightarrow> old) @ s)\<rparr>"

text \<open>\<^verbatim>\<open>with open(p, 'w', encoding='utf-8') as f: f.write(s)\<close>\<close>

definition write_file :: "world \<Rightarrow> path \<Rightarrow> string \<Rightarrow> world \<times> (exn + unit)" where
  "write_file w p s =
     (case open_w w p of
        (w1, Inl e) \<Rightarrow> (w1, Inl e)
      | (w1, Inr _) \<Rightarrow> (f_write w1 p s, Inr ()))"

text \<open>
  \<^verbatim>\<open>try: ... except Exception as e: print(...); return None\<close> around a body that
  returns a value.
\<close>

definition except_Exception :: "world \<times> (exn + 'a) \<Rightarrow> world \<times> (exn + 'a option)" where
  "except_Exception r =
     (case r of
        (w, Inl (Exception m)) \<Rightarrow> (w, Inr None)
      | (w, Inl (BaseException m)) \<Rightarrow> (w, Inl (BaseException m))
      | (w, Inr v) \<Rightarrow> (w, Inr (Some v)))"

section \<open>The Python library functions the scripts use\<close>

text \<open>\<^verbatim>\<open>str.strip()\<close>: the ASCII white space is removed at both ends.\<close>

definition py_isspace :: "char \<Rightarrow> bool" where
  "py_isspace c = (c \<in> set [CHR 0x09, CHR 0x0A, CHR 0x0B, CHR 0x0C, CHR 0x0D,
                              CHR 0x1C, CHR 0x1D, CHR 0x1E, CHR 0x1F, CHR 0x20])"

definition str_strip :: "string \<Rightarrow> string" where
  "str_strip s = rev (dropWhile py_isspace (rev (dropWhile py_isspace s)))"

text \<open>
  \<^verbatim>\<open>str.replace(old, new)\<close>: every occurrence of \<open>old\<close>, found from the left and not
  overlapping, becomes \<open>new\<close>; an empty \<open>old\<close> matches before every character and at
  the end.
\<close>

function replace_from :: "string \<Rightarrow> string \<Rightarrow> string \<Rightarrow> string" where
  "replace_from old new [] = []"
| "replace_from old new (c # cs) =
     (if old \<noteq> [] \<and> take (length old) (c # cs) = old
      then new @ replace_from old new (drop (length old) (c # cs))
      else c # replace_from old new cs)"
  by pat_completeness auto
termination
  by (relation "measure (\<lambda>(old, new, s). length s)") auto

definition str_replace :: "string \<Rightarrow> string \<Rightarrow> string \<Rightarrow> string" where
  "str_replace s old new =
     (if old = [] then new @ concat (map (\<lambda>c. c # new) s) else replace_from old new s)"

text \<open>\<^verbatim>\<open>str.lower()\<close> and \<^verbatim>\<open>str.title()\<close> on ASCII letters.\<close>

definition ascii_uppercase :: string where
  "ascii_uppercase = ''ABCDEFGHIJKLMNOPQRSTUVWXYZ''"

definition ascii_lowercase :: string where
  "ascii_lowercase = ''abcdefghijklmnopqrstuvwxyz''"

definition is_upper :: "char \<Rightarrow> bool" where
  "is_upper c = (c \<in> set ascii_uppercase)"

definition is_lower :: "char \<Rightarrow> bool" where
  "is_lower c = (c \<in> set ascii_lowercase)"

definition lower_char :: "char \<Rightarrow> char" where
  "lower_char c =
     (case map_of (zip ascii_uppercase ascii_lowercase) c of None \<Rightarrow> c | Some l \<Rightarrow> l)"

definition upper_char :: "char \<Rightarrow> char" where
  "upper_char c =
     (case map_of (zip ascii_lowercase ascii_uppercase) c of None \<Rightarrow> c | Some u \<Rightarrow> u)"

definition str_lower :: "string \<Rightarrow> string" where
  "str_lower s = map lower_char s"

fun title_from :: "bool \<Rightarrow> string \<Rightarrow> string" where
  "title_from previous_is_cased [] = []"
| "title_from previous_is_cased (c # cs) =
     (if previous_is_cased then lower_char c else upper_char c)
       # title_from (is_upper c \<or> is_lower c) cs"

definition str_title :: "string \<Rightarrow> string" where
  "str_title s = title_from False s"

text \<open>\<^verbatim>\<open>os.path.join(a, b)\<close> of \<open>posixpath\<close>.\<close>

definition path_join :: "path \<Rightarrow> string \<Rightarrow> path" where
  "path_join a b =
     (if b \<noteq> [] \<and> hd b = CHR ''/'' then b
      else if a = [] \<or> last a = CHR ''/'' then a @ b
      else a @ ''/'' @ b)"

text \<open>
  \<^verbatim>\<open>Path(p).stem\<close> of \<open>pathlib\<close> (POSIX flavour, Python up to 3.13): the path is cut
  at the slashes, the empty and the \<^verbatim>\<open>.\<close> components are dropped, the last component
  left is the name, and the stem is the name without its last suffix.
\<close>

fun split_on :: "char \<Rightarrow> string \<Rightarrow> string list" where
  "split_on sep [] = [[]]"
| "split_on sep (c # cs) =
     (if c = sep then [] # split_on sep cs
      else (case split_on sep cs of [] \<Rightarrow> [[c]] | p # ps \<Rightarrow> (c # p) # ps))"

definition path_name :: "path \<Rightarrow> string" where
  "path_name p =
     (case rev (filter (\<lambda>part. part \<noteq> [] \<and> part \<noteq> ''.'') (split_on (CHR ''/'') p)) of
        [] \<Rightarrow> []
      | name # _ \<Rightarrow> name)"

definition rfind :: "string \<Rightarrow> char \<Rightarrow> nat option" where
  "rfind s c = (case dropWhile (\<lambda>x. x \<noteq> c) (rev s) of [] \<Rightarrow> None | _ # r \<Rightarrow> Some (length r))"

definition stem :: "path \<Rightarrow> string" where
  "stem p =
     (let name = path_name p in
      case rfind name (CHR ''.'') of
        None \<Rightarrow> name
      | Some i \<Rightarrow> if 0 < i \<and> i + 1 < length name then take i name else name)"

text \<open>
  \<^verbatim>\<open>f"{x:.2f}"\<close> on a finite float \<open>x\<close>, which is given by its exact value, a
  rational number: the correctly rounded decimal with two digits after the point, a tie
  going to the even neighbour.
\<close>

definition round_half_even :: "rat \<Rightarrow> int" where
  "round_half_even q =
     (let f = \<lfloor>q\<rfloor>; d = q - of_int f in
      if d < 1 / 2 then f else if 1 / 2 < d then f + 1 else if even f then f else f + 1)"

definition digit_char :: "nat \<Rightarrow> char" where
  "digit_char d = ''0123456789'' ! (d mod 10)"

fun decimal :: "nat \<Rightarrow> string" where
  "decimal n = (if n < 10 then [digit_char n] else decimal (n div 10) @ [digit_char (n mod 10)])"

declare decimal.simps [simp del]

definition format_2f :: "rat \<Rightarrow> string" where
  "format_2f x =
     (let n = nat (round_half_even (\<bar>x\<bar> * 100)) in
      (if x < 0 then ''-'' else []) @ decimal (n div 100) @ ''.''
        @ [digit_char (n mod 100 div 10), digit_char (n mod 10)])"

section \<open>scripts/download\_video.py\<close>

text \<open>
  The yt-dlp library, as far as \<open>download_video\<close> uses it: the constructor of
  \<open>YoutubeDL\<close> and three of its methods, each of which may raise.
\<close>

record 'i yt_dlp =
  new_YoutubeDL :: "ydl_opts \<Rightarrow> exn + unit"
  extract_info :: "ydl_opts \<Rightarrow> string \<Rightarrow> exn + 'i"
  prepare_filename :: "ydl_opts \<Rightarrow> 'i \<Rightarrow> exn + string"
  download :: "ydl_opts \<Rightarrow> string list \<Rightarrow> exn + unit"

text \<open>
  \<^verbatim>\<open>
  def download_video(url, output_dir="./downloads", audio_only=False):
      Path(output_dir).mkdir(parents=True, exist_ok=True)
      ydl_opts = {
          'outtmpl': os.path.join(output_dir, '%(title)s.%(ext)s'),
          'format': 'bestaudio/best' if audio_only else 'best[height<=720]',
      }
      if audio_only:
          ydl_opts['postprocessors'] = [{
              'key': 'FFmpegExtractAudio',
              'preferredcodec': 'wav',
          }]
      try:
          with yt_dlp.YoutubeDL(ydl_opts) as ydl:
              info = ydl.extract_info(url, download=False)
              filename = ydl.prepare_filename(info)
              ydl.download([url])
              print(f"Successfully downloaded: {filename}")
              return filename
      except Exception as e:
          print(f"Error downloading video: {e}")
          return None
  \<close>
  What is printed is not modelled.
\<close>

definition make_ydl_opts :: "path \<Rightarrow> bool \<Rightarrow> ydl_opts" where
  "make_ydl_opts output_dir audio_only =
     \<lparr>outtmpl = path_join output_dir ''%(title)s.%(ext)s'',
      format = (if audio_only then ''bestaudio/best'' else ''best[height<=720]''),
      postprocessors =
        (if audio_only
         then Some [[(''key'', ''FFmpegExtractAudio''), (''preferredcodec'', ''wav'')]]
         else None)\<rparr>"

definition download_try :: "'i yt_dlp \<Rightarrow> world \<Rightarrow> string \<Rightarrow> ydl_opts \<Rightarrow> world \<times> (exn + string)" where
  "download_try yt w url opts =
     (let w1 = log_call (YoutubeDL opts) w in
      case new_YoutubeDL yt opts of
        Inl e \<Rightarrow> (w1, Inl e)
      | Inr _ \<Rightarrow>
          (let w2 = log_call (ExtractInfo url) w1 in
           case extract_info yt opts url of
             Inl e \<Rightarrow> (w2, Inl e)
           | Inr info \<Rightarrow>
               (let w3 = log_call PrepareFilename w2 in
                case prepare_filename yt opts info of
                  Inl e \<Rightarrow> (w3, Inl e)
                | Inr filename \<Rightarrow>
                    (let w4 = log_call (Download [url]) w3 in
                     case download yt opts [url] of
                       Inl e \<Rightarrow> (w4, Inl e)
                     | Inr _ \<Rightarrow> (w4, Inr filename)))))"

definition download_video ::
  "'i yt_dlp \<Rightarrow> world \<Rightarrow> string \<Rightarrow> path \<Rightarrow> bool \<Rightarrow> world \<times> (exn + string option)" where
  "download_video yt w url output_dir audio_only =
     (case mkdir w output_dir of
        Inl e \<Rightarrow> (w, Inl e)
      | Inr _ \<Rightarrow> except_Exception (download_try yt w url (make_ydl_opts output_dir audio_only)))"

section \<open>scripts/transcribe\_audio.py\<close>

text \<open>
  The result of \<open>model.transcribe\<close>: the keys \<open>text\<close> and \<open>segments\<close>, and of
  each segment the keys \<open>start\<close>, \<open>end\<close> and \<open>text\<close>. The times are finite floats,
  given by their exact values.
\<close>

record segment =
  seg_start :: rat
  seg_end :: rat
  seg_text :: string

record transcription =
  result_text :: string
  result_segments :: "segment list"

record 'm whisper =
  load_model :: "string \<Rightarrow> exn + 'm"
  transcribe :: "'m \<Rightarrow> string \<Rightarrow> exn + transcription"

text \<open>
  \<^verbatim>\<open>
  def transcribe_audio(audio_file, model_size="base", output_dir="./transcriptions"):
      Path(output_dir).mkdir(parents=True, exist_ok=True)
      model = whisper.load_model(model_size)
      try:
          result = model.transcribe(audio_file)
          base_name = Path(audio_file).stem
          transcript_file = os.path.join(output_dir, f"{base_name}_transcript.txt")
          with open(transcript_file, 'w', encoding='utf-8') as f:
              f.write(result['text'])
          segments_file = os.path.join(output_dir, f"{base_name}_segments.txt")
          with open(segments_file, 'w', encoding='utf-8') as f:
              for segment in result['segments']:
                  start_time = segment['start']
                  end_time = segment['end']
                  text = segment['text']
                  f.write(f"[{start_time:.2f} - {end_time:.2f}]: {text}\n")
          return result
      except Exception as e:
          print(f"Error transcribing audio: {e}")
          return None
  \<close>
\<close>

definition transcript_file :: "path \<Rightarrow> path \<Rightarrow> path" where
  "transcript_file output_dir audio_file =
     (let base_name = stem audio_file in path_join output_dir (base_name @ ''_transcript.txt''))"

definition segments_file :: "path \<Rightarrow> path \<Rightarrow> path" where
  "segments_file output_dir audio_file =
     (let base_name = stem audio_file in path_join output_dir (base_name @ ''_segments.txt''))"

definition segment_line :: "segment \<Rightarrow> string" where
  "segment_line segment =
     (let start_time = seg_start segment; end_time = seg_end segment; text = seg_text segment in
      ''['' @ format_2f start_time @ '' - '' @ format_2f end_time @ '']: '' @ text @ [CHR 0x0A])"

fun write_segments :: "world \<Rightarrow> path \<Rightarrow> segment list \<Rightarrow> world" where
  "write_segments w p [] = w"
| "write_segments w p (segment # rest) =
     write_segments (f_write w p (segment_line segment)) p rest"

definition transcribe_try ::
  "'m whisper \<Rightarrow> 'm \<Rightarrow> world \<Rightarrow> path \<Rightarrow> path \<Rightarrow> world \<times> (exn + transcription)" where
  "transcribe_try wh model w audio_file output_dir =
     (let w1 = log_call (Transcribe audio_file) w in
      case transcribe wh model audio_file of
        Inl e \<Rightarrow> (w1, Inl e)
      | Inr result \<Rightarrow>
          (case write_file w1 (transcript_file output_dir audio_file) (result_text result) of
             (w2, Inl e) \<Rightarrow> (w2, Inl e)
           | (w2, Inr _) \<Rightarrow>
               (case open_w w2 (segments_file output_dir audio_file) of
                  (w3, Inl e) \<Rightarrow> (w3, Inl e)
                | (w3, Inr _) \<Rightarrow>
                    (write_segments w3 (segments_file output_dir audio_file)
                       (result_segments result), Inr result))))"

definition transcribe_audio ::
  "'m whisper \<Rightarrow> world \<Rightarrow> path \<Rightarrow> string \<Rightarrow> path \<Rightarrow> world \<times> (exn + transcription option)" where
  "transcribe_audio wh w audio_file model_size output_dir =
     (case mkdir w output_dir of
        Inl e \<Rightarrow> (w, Inl e)
      | Inr _ \<Rightarrow>
          (let w1 = log_call (LoadModel model_size) w in
           case load_model wh model_size of
             Inl e \<Rightarrow> (w1, Inl e)
           | Inr model \<Rightarrow> except_Exception (transcribe_try wh model w1 audio_file output_dir)))"

section \<open>scripts/summarize\_text.py\<close>

text \<open>
  The two optional libraries. \<^verbatim>\<open>TRANSFORMERS_AVAILABLE\<close> and \<^verbatim>\<open>OPENAI_AVAILABLE\<close>
  are set by the imports at the top of the module: a library that failed to import is
  \<open>None\<close> here and its flag is \<open>False\<close>; using its name then raises \<open>NameError\<close>.
  A pipeline call answers with the list of its \<open>summary_text\<close>s, a chat completion with
  the message contents of its choices.
\<close>

record 's transformers =
  pipeline :: "string \<Rightarrow> string \<Rightarrow> exn + 's"
  summarizer :: "'s \<Rightarrow> string \<Rightarrow> int \<Rightarrow> exn + string list"

record openai =
  ChatCompletion_create :: "string \<Rightarrow> (string \<times> string) list \<Rightarrow> int \<Rightarrow> exn + string list"

text \<open>
  \<^verbatim>\<open>
  def summarize_with_transformers(text, model_name="facebook/bart-large-cnn", max_length=150):
      try:
          summarizer = pipeline("summarization", model=model_name)
          result = summarizer(text, max_length=max_length, min_length=30, do_sample=False)
          return result[0]['summary_text']
      except Exception as e:
          print(f"Error with transformers summarization: {e}")
          return None
  \<close>
\<close>

definition summarize_with_transformers ::
  "'s transformers option \<Rightarrow> world \<Rightarrow> string \<Rightarrow> string \<Rightarrow> int \<Rightarrow> world \<times> (exn + string option)" where
  "summarize_with_transformers tf w text model_name max_length =
     except_Exception
       (case tf of
          None \<Rightarrow> (w, Inl (Exception ''NameError''))
        | Some lib \<Rightarrow>
            (let w1 = log_call (Pipeline ''summarization'' model_name) w in
             case pipeline lib ''summarization'' model_name of
               Inl e \<Rightarrow> (w1, Inl e)
             | Inr sm \<Rightarrow>
                 (let w2 = log_call (Summarizer text max_length) w1 in
                  case summarizer lib sm text max_length of
                    Inl e \<Rightarrow> (w2, Inl e)
                  | Inr [] \<Rightarrow> (w2, Inl (Exception ''IndexError''))
                  | Inr (summary_text # _) \<Rightarrow> (w2, Inr summary_text))))"

text \<open>
  \<^verbatim>\<open>
  def summarize_with_openai(text, model="gpt-3.5-turbo", max_tokens=150):
      try:
          response = openai.ChatCompletion.create(
              model=model,
              messages=[
                  {"role": "system", "content": "You are a helpful assistant that creates concise summaries."},
                  {"role": "user", "content": f"Please summarize the following text:\n\n{text}"}
              ],
              max_tokens=max_tokens
          )
          return response.choices[0].message.content.strip()
      except Exception as e:
          print(f"Error with OpenAI summarization: {e}")
          return None
  \<close>
\<close>

definition chat_try ::
  "openai option \<Rightarrow> world \<Rightarrow> string \<Rightarrow> (string \<times> string) list \<Rightarrow> int \<Rightarrow> world \<times> (exn + string)" where
  "chat_try oa w model messages max_tokens =
     (case oa of
        None \<Rightarrow> (w, Inl (Exception ''NameError''))
      | Some lib \<Rightarrow>
          (let w1 = log_call (ChatCompletionCreate model messages max_tokens) w in
           case ChatCompletion_create lib model messages max_tokens of
             Inl e \<Rightarrow> (w1, Inl e)
           | Inr [] \<Rightarrow> (w1, Inl (Exception ''IndexError''))
           | Inr (content # _) \<Rightarrow> (w1, Inr (str_strip content))))"

definition summarize_with_openai ::
  "openai option \<Rightarrow> world \<Rightarrow> string \<Rightarrow> string \<Rightarrow> int \<Rightarrow> world \<times> (exn + string option)" where
  "summarize_with_openai oa w text model max_tokens =
     except_Exception
       (chat_try oa w model
          [(''system'', ''You are a helpful assistant that creates concise summaries.''),
           (''user'', ''Please summarize the following text:'' @ [CHR 0x0A, CHR 0x0A] @ text)]
          max_tokens)"

text \<open>
  \<^verbatim>\<open>
  def summarize_text(input_file, output_dir="./summaries", method="transformers", max_length=150):
      Path(output_dir).mkdir(parents=True, exist_ok=True)
      try:
          with open(input_file, 'r', encoding='utf-8') as f:
              text = f.read().strip()
      except Exception as e:
          print(f"Error reading input file: {e}")
          return None
      if method == "transformers":
          if not TRANSFORMERS_AVAILABLE:
              print("Error: transformers not installed. Run: pip install transformers torch")
              return None
          summary = summarize_with_transformers(text, max_length=max_length)
      elif method == "openai":
          if not OPENAI_AVAILABLE:
              print("Error: openai not installed. Run: pip install openai")
              return None
          summary = summarize_with_openai(text, max_tokens=max_length)
      else:
          print(f"Unknown summarization method: {method}")
          return None
      if summary:
          base_name = Path(input_file).stem
          summary_file = os.path.join(output_dir, f"{base_name}_summary.txt")
          with open(summary_file, 'w', encoding='utf-8') as f:
              f.write(summary)
          print(f"Summary saved to: {summary_file}")
          return summary
      return None
  \<close>
  The three early \<^verbatim>\<open>return None\<close> of the method selection give the same result as a
  summary that is \<^verbatim>\<open>None\<close>, which falls through to the last line.
\<close>

definition read_stripped :: "world \<Rightarrow> path \<Rightarrow> world \<times> (exn + string option)" where
  "read_stripped w input_file =
     except_Exception
       (case read_file w input_file of Inl e \<Rightarrow> (w, Inl e) | Inr s \<Rightarrow> (w, Inr (str_strip s)))"

definition summary_file :: "path \<Rightarrow> path \<Rightarrow> path" where
  "summary_file output_dir input_file =
     (let base_name = stem input_file in path_join output_dir (base_name @ ''_summary.txt''))"

text \<open>
  \<^verbatim>\<open>if content: <write content to p>; return content\<close> and \<^verbatim>\<open>return None\<close>
  after it: a string is true when it is not empty.
\<close>

definition save_if_true :: "world \<Rightarrow> path \<Rightarrow> string option \<Rightarrow> world \<times> (exn + string option)" where
  "save_if_true w p content =
     (case content of
        None \<Rightarrow> (w, Inr None)
      | Some c \<Rightarrow>
          if c = [] then (w, Inr None)
          else (case write_file w p c of
                  (w1, Inl e) \<Rightarrow> (w1, Inl e)
                | (w1, Inr _) \<Rightarrow> (w1, Inr (Some c))))"

definition summarize_text ::
  "'s transformers option \<Rightarrow> openai option \<Rightarrow> world \<Rightarrow> path \<Rightarrow> path \<Rightarrow> string \<Rightarrow> int
     \<Rightarrow> world \<times> (exn + string option)" where
  "summarize_text tf oa w input_file output_dir method max_length =
     (case mkdir w output_dir of
        Inl e \<Rightarrow> (w, Inl e)
      | Inr _ \<Rightarrow>
          (case read_stripped w input_file of
             (w1, Inl e) \<Rightarrow> (w1, Inl e)
           | (w1, Inr None) \<Rightarrow> (w1, Inr None)
           | (w1, Inr (Some text)) \<Rightarrow>
               (case (if method = ''transformers''
                      then (if tf = None then (w1, Inr None)
                            else summarize_with_transformers tf w1 text
                                   ''facebook/bart-large-cnn'' max_length)
                      else if method = ''openai''
                      then (if oa = None then (w1, Inr None)
                            else summarize_with_openai oa w1 text ''gpt-3.5-turbo'' max_length)
                      else (w1, Inr None)) of
                  (w2, Inl e) \<Rightarrow> (w2, Inl e)
                | (w2, Inr summary) \<Rightarrow>
                    save_if_true w2 (summary_file output_dir input_file) summary)))"

section \<open>scripts/generate\_blog.py\<close>

definition lines_text :: "string list \<Rightarrow> string" where
  "lines_text ls = concat (map (\<lambda>l. l @ [CHR 0x0A]) ls)"

text \<open>
  \<^verbatim>\<open>
  def generate_blog_with_openai(summary, title="", model="gpt-3.5-turbo", max_tokens=1000):
      try:
          prompt = f"""
  Create an engaging blog post from the following summary:

  Summary: {summary}

  Please format the blog post with:
  - An engaging title (if not provided: "{title}")
  - Introduction paragraph
  - Main content sections with subheadings
  - Conclusion
  - Use markdown formatting

  Make it informative, well-structured, and SEO-friendly.
  """
          response = openai.ChatCompletion.create(
              model=model,
              messages=[
                  {"role": "system", "content": "You are a professional content writer who creates engaging blog posts."},
                  {"role": "user", "content": prompt}
              ],
              max_tokens=max_tokens
          )
          return response.choices[0].message.content.strip()
      except Exception as e:
          print(f"Error with OpenAI blog generation: {e}")
          return None
  \<close>
\<close>

definition blog_prompt :: "string \<Rightarrow> string \<Rightarrow> string" where
  "blog_prompt summary title =
     lines_text
       [[],
        ''Create an engaging blog post from the following summary:'',
        [],
        ''Summary: '' @ summary,
        [],
        ''Please format the blog post with:'',
        ''- An engaging title (if not provided: '' @ [CHR 0x22] @ title @ [CHR 0x22] @ '')'',
        ''- Introduction paragraph'',
        ''- Main content sections with subheadings'',
        ''- Conclusion'',
        ''- Use markdown formatting'',
        [],
        ''Make it informative, well-structured, and SEO-friendly.'']"

definition generate_blog_with_openai ::
  "openai option \<Rightarrow> world \<Rightarrow> string \<Rightarrow> string \<Rightarrow> string \<Rightarrow> int \<Rightarrow> world \<times> (exn + string option)" where
  "generate_blog_with_openai oa w summary title model max_tokens =
     except_Exception
       (chat_try oa w model
          [(''system'', ''You are a professional content writer who creates engaging blog posts.''),
           (''user'', blog_prompt summary title)]
          max_tokens)"

text \<open>
  \<^verbatim>\<open>
  def generate_blog_template(summary, title="", video_url=""):
      date_str = datetime.now().strftime("%Y-%m-%d")
      if not title:
          title = "Video Summary Blog Post"
      template = f"""---
  title: "{title}"
  date: {date_str}
  tags: [video-summary, content]
  author: AI Content Generator
  ---

  # {title}

  *Published: {date_str}*

  ## Overview

  This blog post is generated from a video summary, providing key insights and information in an easily digestible format.

  ## Summary

  {summary}

  ## Key Points

  - Main topics covered in the video
  - Important insights and takeaways
  - Actionable information for readers

  ## Conclusion

  This summary provides a comprehensive overview of the video content, making it accessible for those who prefer reading over watching.

  ---

  *This content was automatically generated from video transcription and summarization.*
  """
      if video_url:
          template += f"\n\n**Original Video:** [{video_url}]({video_url})"
      return template
  \<close>
  The date is read from the world.
\<close>

definition generate_blog_template :: "world \<Rightarrow> string \<Rightarrow> string \<Rightarrow> string \<Rightarrow> string" where
  "generate_blog_template w summary title0 video_url =
     (let date_str = today w;
          title = (if title0 = [] then ''Video Summary Blog Post'' else title0);
          template = lines_text
            [''---'',
             ''title: '' @ [CHR 0x22] @ title @ [CHR 0x22],
             ''date: '' @ date_str,
             ''tags: [video-summary, content]'',
             ''author: AI Content Generator'',
             ''---'',
             [],
             ''# '' @ title,
             [],
             ''*Published: '' @ date_str @ ''*'',
             [],
             ''## Overview'',
             [],
             ''This blog post is generated from a video summary, providing key insights and information in an easily digestible format.'',
             [],
             ''## Summary'',
             [],
             summary,
             [],
             ''## Key Points'',
             [],
             ''- Main topics covered in the video'',
             ''- Important insights and takeaways'',
             ''- Actionable information for readers'',
             [],
             ''## Conclusion'',
             [],
             ''This summary provides a comprehensive overview of the video content, making it accessible for those who prefer reading over watching.'',
             [],
             ''---'',
             [],
             ''*This content was automatically generated from video transcription and summarization.*'']
      in if video_url \<noteq> []
         then template @ [CHR 0x0A, CHR 0x0A] @ ''**Original Video:** ['' @ video_url @ '']('' @ video_url @ '')''
         else template)"

text \<open>
  \<^verbatim>\<open>
  def generate_blog(input_file, output_dir="./blogs", title="", method="template", video_url=""):
      Path(output_dir).mkdir(parents=True, exist_ok=True)
      try:
          with open(input_file, 'r', encoding='utf-8') as f:
              summary = f.read().strip()
      except Exception as e:
          print(f"Error reading input file: {e}")
          return None
      if method == "openai":
          if not OPENAI_AVAILABLE:
              print("Error: openai not installed. Run: pip install openai")
              return None
          blog_content = generate_blog_with_openai(summary, title)
      else:  # template method
          blog_content = generate_blog_template(summary, title, video_url)
      if blog_content:
          base_name = Path(input_file).stem.replace('_summary', '')
          if not title:
              title = base_name.replace('_', ' ').title()
          safe_title = title.lower().replace(' ', '_').replace('/', '_')
          blog_file = os.path.join(output_dir, f"{safe_title}_blog.md")
          with open(blog_file, 'w', encoding='utf-8') as f:
              f.write(blog_content)
          print(f"Blog post saved to: {blog_file}")
          return blog_content
      return None
  \<close>
\<close>

definition blog_file :: "path \<Rightarrow> path \<Rightarrow> string \<Rightarrow> path" where
  "blog_file output_dir input_file title0 =
     (let base_name = str_replace (stem input_file) ''_summary'' [];
          title = (if title0 = [] then str_title (str_replace base_name ''_'' '' '') else title0);
          safe_title = str_replace (str_replace (str_lower title) '' '' ''_'') ''/'' ''_''
      in path_join output_dir (safe_title @ ''_blog.md''))"

definition generate_blog ::
  "openai option \<Rightarrow> world \<Rightarrow> path \<Rightarrow> path \<Rightarrow> string \<Rightarrow> string \<Rightarrow> string
     \<Rightarrow> world \<times> (exn + string option)" where
  "generate_blog oa w input_file output_dir title method video_url =
     (case mkdir w output_dir of
        Inl e \<Rightarrow> (w, Inl e)
      | Inr _ \<Rightarrow>
          (case read_stripped w input_file of
             (w1, Inl e) \<Rightarrow> (w1, Inl e)
           | (w1, Inr None) \<Rightarrow> (w1, Inr None)
           | (w1, Inr (Some summary)) \<Rightarrow>
               (case (if method = ''openai''
                      then (if oa = None then (w1, Inr None)
                            else generate_blog_with_openai oa w1 summary title ''gpt-3.5-turbo'' 1000)
                      else (w1, Inr (Some (generate_blog_template w1 summary title video_url)))) of
                  (w2, Inl e) \<Rightarrow> (w2, Inl e)
                | (w2, Inr blog_content) \<Rightarrow>
                    save_if_true w2 (blog_file output_dir input_file title) blog_content)))"

section \<open>scripts/process\_video.py\<close>

text \<open>
  \<^verbatim>\<open>
  def process_video(video_url, output_dir=None, config=None):
      """... Returns: dict: Results dictionary with paths to generated content
         Raises: ValueError: If video_url is invalid ..."""
      pass

  def validate_video_url(url):
      """... Returns: bool: True if valid YouTube URL, False otherwise"""
      pass

  def setup_output_directories(base_dir):
      pass
  \<close>
  A body \<^verbatim>\<open>pass\<close> does nothing and the call returns \<^verbatim>\<open>None\<close>.
\<close>

type_synonym results = "(string \<times> string) list"

definition process_video ::
  "world \<Rightarrow> string \<Rightarrow> string option \<Rightarrow> string option \<Rightarrow> world \<times> (exn + results option)" where
  "process_video w video_url output_dir config = (w, Inr None)"

definition validate_video_url :: "string \<Rightarrow> bool option" where
  "validate_video_url url = None"

definition setup_output_directories :: "world \<Rightarrow> string \<Rightarrow> world \<times> (exn + results option)" where
  "setup_output_directories w base_dir = (w, Inr None)"

text \<open>A world with no file, no refused path and no call made.\<close>

definition world0 :: world where
  "world0 = \<lparr>files = Map.empty, denied = [], calls = [], today = ''2024-01-15''\<rparr>"

section \<open>Writing a file, step by step\<close>

text \<open>
  \<^verbatim>\<open>with open(p, 'w', encoding='utf-8') as f: f.write(s)\<close> is how every stage function
  persists its output. It acts on the file at \<open>p\<close> itself: the file is created or
  truncated, and then the characters of \<open>s\<close> reach it front to back. The write can be
  interrupted (a signal, a crash, a full disk) after any number of these steps;
  \<open>interrupted w p s n\<close> is the world in which exactly the first \<open>n\<close> steps took place.
\<close>

datatype fs_op = Open_w path | Write_char path char

definition write_steps :: "path \<Rightarrow> string \<Rightarrow> fs_op list" where
  "write_steps p s = Open_w p # map (Write_char p) s"

fun fs_step :: "world \<Rightarrow> fs_op \<Rightarrow> world" where
  "fs_step w (Open_w p) = w\<lparr>files := (files w)(p \<mapsto> [])\<rparr>"
| "fs_step w (Write_char p c) = f_write w p [c]"

definition interrupted :: "world \<Rightarrow> path \<Rightarrow> string \<Rightarrow> nat \<Rightarrow> world" where
  "interrupted w p s n = foldl fs_step w (take n (write_steps p s))"

text \<open>
  Modelled from the spec: the Artifact Store's \<open>lookup\<close>, which the repository does not
  have. It "returns a value only if a file exists at the deterministic path AND its
  content passes a minimal well-formedness check specific to the stage (non-empty text
  for transcript/summary/blog)"; the path is given directly.
\<close>

definition lookup :: "world \<Rightarrow> path \<Rightarrow> string option" where
  "lookup w p = (case files w p of None \<Rightarrow> None | Some c \<Rightarrow> if c = [] then None else Some c)"

section \<open>Example libraries and worlds\<close>

text \<open>
  A yt-dlp that knows web URLs only, a whisper with the five model sizes of the command
  line, and a world that holds one summary file.
\<close>

definition yt_example :: "string yt_dlp" where
  "yt_example =
     \<lparr>new_YoutubeDL = (\<lambda>opts. Inr ()),
      extract_info = (\<lambda>opts url.
         if take 8 url = ''https://'' then Inr ''Talk''
         else Inl (Exception ''DownloadError: Unsupported URL'')),
      prepare_filename = (\<lambda>opts info. Inr (''./downloads/'' @ info @ ''.mp4'')),
      download = (\<lambda>opts urls. Inr ())\<rparr>"

definition example_result :: transcription where
  "example_result =
     \<lparr>result_text = '' Hello world. Bye.'',
      result_segments =
        [\<lparr>seg_start = 0, seg_end = 5 / 2, seg_text = '' Hello world.''\<rparr>,
         \<lparr>seg_start = 5 / 2, seg_end = 33 / 8, seg_text = '' Bye.''\<rparr>]\<rparr>"

definition whisper_example :: "string whisper" where
  "whisper_example =
     \<lparr>load_model = (\<lambda>model_size.
         if model_size \<in> set [''tiny'', ''base'', ''small'', ''medium'', ''large'']
         then Inr model_size
         else Inl (Exception ''RuntimeError: model not found'')),
      transcribe = (\<lambda>model audio_file. Inr example_result)\<rparr>"

definition world_abc :: world where
  "world_abc =
     \<lparr>files = [''abc_summary.txt'' \<mapsto> ''A short summary.''], denied = [], calls = [],
      today = ''2024-01-15''\<rparr>"

section \<open>What the claims speak of\<close>



section \<open>Properties\<close>

text \<open>
  C1. The claim: the orchestrator's run operation returns a completed manifest and never
  raises. The code: \<open>process_video\<close> has the body \<^verbatim>\<open>pass\<close>; on the URL below it
  raises nothing, and what it returns is \<^verbatim>\<open>None\<close>, where its docstring announces a
  results dictionary.
\<close>

theorem process_video_returns_None:
  "process_video world0 ''https://www.youtube.com/watch?v=dQw4w9WgXcQ'' (Some ''./output'') None
     = (world0, Inr None)"
  by (simp add: process_video_def)

subsection \<open>Writing files\<close>

lemma files_f_write_other: "q \<noteq> p \<Longrightarrow> files (f_write w p s) q = files w q"
  by (simp add: f_write_def)

lemma files_f_write_same:
  "files (f_write w p s) p = Some ((case files w p of None \<Rightarrow> [] | Some old \<Rightarrow> old) @ s)"
  by (simp add: f_write_def)

lemma foldl_write_chars:
  "files w p = Some old \<Longrightarrow>
   files (foldl fs_step w (map (Write_char p) cs)) p = Some (old @ cs)"
  by (induction cs arbitrary: w old) (simp_all add: f_write_def)

lemma foldl_write_chars_other:
  "q \<noteq> p \<Longrightarrow> files (foldl fs_step w (map (Write_char p) cs)) q = files w q"
  by (induction cs arbitrary: w) (simp_all add: f_write_def)

lemma foldl_write_chars_world:
  "files w p = Some old \<Longrightarrow>
   foldl fs_step w (map (Write_char p) cs) = w\<lparr>files := (files w)(p \<mapsto> old @ cs)\<rparr>"
proof (induction cs arbitrary: w old)
  case Nil
  then show ?case by (simp add: map_upd_triv)
next
  case (Cons c cs)
  have "files (f_write w p [c]) p = Some (old @ [c])"
    using Cons.prems by (simp add: f_write_def)
  from Cons.IH [OF this] show ?case
    using Cons.prems by (simp add: f_write_def cong: if_cong)
qed

lemma interrupted_Suc:
  "interrupted w p s (Suc n) = foldl fs_step (w\<lparr>files := (files w)(p \<mapsto> [])\<rparr>) (map (Write_char p) (take n s))"
  by (simp add: interrupted_def write_steps_def take_map)

lemma interrupted_same: "files (interrupted w p s (Suc n)) p = Some (take n s)"
  using foldl_write_chars [of "w\<lparr>files := (files w)(p \<mapsto> [])\<rparr>" p "[]" "take n s"]
  by (simp add: interrupted_Suc)

lemma interrupted_other: "q \<noteq> p \<Longrightarrow> files (interrupted w p s n) q = files w q"
proof (cases n)
  case 0
  then show ?thesis by (simp add: interrupted_def)
next
  case (Suc m)
  assume "q \<noteq> p"
  then show ?thesis
    by (simp add: Suc interrupted_Suc foldl_write_chars_other)
qed

lemma write_file_steps:
  "p \<notin> set (denied w) \<Longrightarrow> write_file w p s = (interrupted w p s (Suc (length s)), Inr ())"
  using foldl_write_chars_world [of "w\<lparr>files := (files w)(p \<mapsto> [])\<rparr>" p "[]" s]
  by (simp add: write_file_def open_w_def f_write_def interrupted_Suc)

text \<open>
  C3, as the code has it. The stage functions write the artifact at its final path
  itself. No other path is touched at any step, so there is no temporary file and no
  rename; after the file is opened and \<open>n\<close> characters are written, the final path
  holds the first \<open>n\<close> characters of the content; and a write that is allowed and
  runs to its end is the last of these steps and leaves the whole content there.
\<close>

theorem persist_writes_in_place:
  "files (interrupted w p s (Suc n)) p = Some (take n s)
   \<and> (\<forall>q. q \<noteq> p \<longrightarrow> files (interrupted w p s n) q = files w q)
   \<and> (p \<notin> set (denied w) \<longrightarrow>
        write_file w p s = (interrupted w p s (Suc (length s)), Inr ())
        \<and> files (fst (write_file w p s)) p = Some s)"
  using interrupted_same [of w p s n] interrupted_same [of w p s "length s"]
  by (simp add: interrupted_other write_file_steps)

text \<open>
  C3, as the claim states it, fails: interrupted after the file is opened and two of the
  five characters are written, the transcript is visible at its final path, half
  written, and a lookup that accepts any non-empty text returns it.
\<close>

theorem persist_interrupted_counterexample:
  "files (interrupted world0 ''./transcriptions/abc_transcript.txt'' ''hello'' 3)
     ''./transcriptions/abc_transcript.txt'' = Some ''he''
   \<and> lookup (interrupted world0 ''./transcriptions/abc_transcript.txt'' ''hello'' 3)
       ''./transcriptions/abc_transcript.txt'' = Some ''he''"
  by (simp add: interrupted_def write_steps_def lookup_def f_write_def world0_def)

theorem persist_writes_in_place_witness:
  "files (interrupted world0 ''a.txt'' ''hello'' (Suc 2)) ''a.txt'' = Some ''he''
   \<and> ''b.txt'' \<noteq> ''a.txt''
   \<and> files (interrupted world0 ''a.txt'' ''hello'' 2) ''b.txt'' = files world0 ''b.txt''
   \<and> ''a.txt'' \<notin> set (denied world0)
   \<and> files (fst (write_file world0 ''a.txt'' ''hello'')) ''a.txt'' = Some ''hello''"
proof -
  have h: "''a.txt'' \<notin> set (denied world0)" "''b.txt'' \<noteq> ''a.txt''"
    by (simp_all add: world0_def)
  from persist_writes_in_place [of world0 "''a.txt''" "''hello''" 2] h
  show ?thesis by auto
qed

subsection \<open>Catching what the libraries raise\<close>

lemma calls_log_call: "calls (log_call c w) = calls w @ [c]"
  by (simp add: log_call_def)

lemma except_Exception_catches: "snd (except_Exception r) \<noteq> Inl (Exception m)"
  by (auto simp: except_Exception_def split: prod.splits sum.splits exn.splits)

lemma download_video_catches:
  "mkdir w output_dir = Inr () \<Longrightarrow>
   snd (download_video yt w url output_dir audio_only) \<noteq> Inl (Exception m)"
  by (simp add: download_video_def except_Exception_catches)

text \<open>
  C6, as the code has it. \<open>download_video\<close> does not look at the scheme of the URL.
  Once the output directory exists and the \<open>YoutubeDL\<close> object is built, every URL is
  handed to the library's \<open>extract_info\<close>; rejecting it is left to the library, and
  when the library raises an \<open>Exception\<close> there, \<open>download_video\<close> returns
  \<^verbatim>\<open>None\<close>.
\<close>

theorem download_video_asks_collaborator:
  assumes "mkdir w output_dir = Inr ()"
    and "new_YoutubeDL yt (make_ydl_opts output_dir audio_only) = Inr ()"
  shows "(\<exists>rest. calls (fst (download_video yt w url output_dir audio_only))
            = calls w @ YoutubeDL (make_ydl_opts output_dir audio_only) # ExtractInfo url # rest)
         \<and> (\<forall>m. extract_info yt (make_ydl_opts output_dir audio_only) url = Inl (Exception m)
               \<longrightarrow> snd (download_video yt w url output_dir audio_only) = Inr None)"
  using assms
  by (auto simp: download_video_def download_try_def Let_def log_call_def except_Exception_def
           split: sum.splits exn.splits)

theorem download_video_asks_collaborator_witness:
  "mkdir world0 ''./downloads'' = Inr ()
   \<and> new_YoutubeDL yt_example (make_ydl_opts ''./downloads'' False) = Inr ()
   \<and> extract_info yt_example (make_ydl_opts ''./downloads'' False) ''ftp://example.com/video.mp4''
        = Inl (Exception ''DownloadError: Unsupported URL'')
   \<and> (\<exists>rest. calls (fst (download_video yt_example world0 ''ftp://example.com/video.mp4''
                             ''./downloads'' False))
            = calls world0 @ YoutubeDL (make_ydl_opts ''./downloads'' False)
                # ExtractInfo ''ftp://example.com/video.mp4'' # rest)
   \<and> snd (download_video yt_example world0 ''ftp://example.com/video.mp4'' ''./downloads'' False)
       = Inr None"
proof -
  have h1: "mkdir world0 ''./downloads'' = Inr ()"
    by (simp add: mkdir_def world0_def)
  have h2: "new_YoutubeDL yt_example (make_ydl_opts ''./downloads'' False) = Inr ()"
    by (simp add: yt_example_def)
  have h3: "extract_info yt_example (make_ydl_opts ''./downloads'' False)
              ''ftp://example.com/video.mp4''
        = Inl (Exception ''DownloadError: Unsupported URL'')"
    by (simp add: yt_example_def)
  from download_video_asks_collaborator [OF h1 h2, of "''ftp://example.com/video.mp4''"] h1 h2 h3
  show ?thesis by blast
qed

text \<open>
  C6, as the claim states it, fails: on an \<^verbatim>\<open>ftp\<close> URL the library is called twice,
  the second time with the URL, before anything is rejected; the rejection is the
  library's, and what \<open>download_video\<close> returns is \<^verbatim>\<open>None\<close>.
\<close>

theorem download_video_unsupported_scheme_counterexample:
  "download_video yt_example world0 ''ftp://example.com/video.mp4'' ''./downloads'' False
     = (world0\<lparr>calls := [YoutubeDL (make_ydl_opts ''./downloads'' False),
                          ExtractInfo ''ftp://example.com/video.mp4'']\<rparr>, Inr None)"
  by (simp add: download_video_def download_try_def Let_def log_call_def except_Exception_def
        mkdir_def world0_def yt_example_def)

text \<open>
  C10. The claim: each stage function catches what a library call raises and returns
  \<^verbatim>\<open>None\<close>. In \<open>transcribe_audio\<close> the call \<^verbatim>\<open>whisper.load_model(model_size)\<close>
  stands before the \<^verbatim>\<open>try\<close>: with a model size the library does not know, its
  exception reaches the caller.
\<close>

theorem transcribe_audio_load_model_propagates:
  "transcribe_audio whisper_example world0 ''talk.wav'' ''huge'' ''./transcriptions''
     = (world0\<lparr>calls := [LoadModel ''huge'']\<rparr>, Inl (Exception ''RuntimeError: model not found''))"
  by (simp add: transcribe_audio_def Let_def log_call_def mkdir_def world0_def whisper_example_def)

subsection \<open>Blog generation from the template\<close>

lemma write_file_allowed:
  "p \<notin> set (denied w) \<Longrightarrow> write_file w p s = (w\<lparr>files := (files w)(p \<mapsto> s)\<rparr>, Inr ())"
  by (simp add: write_file_def open_w_def f_write_def)

lemma read_stripped_Some:
  "files w p = Some txt \<Longrightarrow> read_stripped w p = (w, Inr (Some (str_strip txt)))"
  by (simp add: read_stripped_def read_file_def except_Exception_def)

lemma lines_text_Cons: "lines_text (l # ls) = l @ CHR 0x0A # lines_text ls"
  by (simp add: lines_text_def)

lemma generate_blog_template_nonempty: "generate_blog_template w summary title video_url \<noteq> []"
  by (simp add: generate_blog_template_def Let_def lines_text_Cons)

lemma generate_blog_template_run:
  assumes "files w input_file = Some txt"
    and "mkdir w output_dir = Inr ()"
    and "blog_file output_dir input_file title \<notin> set (denied w)"
  shows "generate_blog oa w input_file output_dir title ''template'' video_url
           = (w\<lparr>files := (files w)(blog_file output_dir input_file title
                  \<mapsto> generate_blog_template w (str_strip txt) title video_url)\<rparr>,
              Inr (Some (generate_blog_template w (str_strip txt) title video_url)))"
  using assms
  by (simp add: generate_blog_def read_stripped_Some save_if_true_def
        generate_blog_template_nonempty write_file_allowed)

text \<open>
  C7. With the method \<^verbatim>\<open>template\<close>, \<open>generate_blog\<close> succeeds whenever the summary
  file can be read and the blog file can be written: it returns the text of
  \<open>generate_blog_template\<close> on the stripped summary and saves it, whatever the summary
  is, whether the openai library is there (\<open>oa\<close> is any library or none), and without
  a single library call.
\<close>

theorem generate_blog_template_succeeds:
  assumes "files w input_file = Some txt"
    and "mkdir w output_dir = Inr ()"
    and "blog_file output_dir input_file title \<notin> set (denied w)"
  shows "generate_blog oa w input_file output_dir title ''template'' video_url
           = (w\<lparr>files := (files w)(blog_file output_dir input_file title
                  \<mapsto> generate_blog_template w (str_strip txt) title video_url)\<rparr>,
              Inr (Some (generate_blog_template w (str_strip txt) title video_url)))
         \<and> generate_blog_template w (str_strip txt) title video_url \<noteq> []
         \<and> calls (fst (generate_blog oa w input_file output_dir title ''template'' video_url))
             = calls w"
  using generate_blog_template_run [OF assms, of oa video_url]
  by (simp add: generate_blog_template_nonempty)

theorem generate_blog_template_succeeds_witness:
  "files world_abc ''abc_summary.txt'' = Some ''A short summary.''
   \<and> mkdir world_abc ''./blogs'' = Inr ()
   \<and> blog_file ''./blogs'' ''abc_summary.txt'' ''My Post'' \<notin> set (denied world_abc)
   \<and> snd (generate_blog None world_abc ''abc_summary.txt'' ''./blogs'' ''My Post'' ''template'' [])
       = Inr (Some (generate_blog_template world_abc (str_strip ''A short summary.'') ''My Post'' []))
   \<and> calls (fst (generate_blog None world_abc ''abc_summary.txt'' ''./blogs'' ''My Post''
                    ''template'' []))
       = calls world_abc"
proof -
  have h1: "files world_abc ''abc_summary.txt'' = Some ''A short summary.''"
    by (simp add: world_abc_def)
  have h2: "mkdir world_abc ''./blogs'' = Inr ()"
    by (simp add: mkdir_def world_abc_def)
  have h3: "blog_file ''./blogs'' ''abc_summary.txt'' ''My Post'' \<notin> set (denied world_abc)"
    by (simp add: world_abc_def)
  from generate_blog_template_succeeds [OF h1 h2 h3, of None "[]"] h1 h2 h3
  show ?thesis by simp
qed

subsection \<open>The files of a transcription\<close>

lemma write_segments_other:
  "q \<noteq> p \<Longrightarrow> files (write_segments w p segs) q = files w q"
  by (induction segs arbitrary: w) (simp_all add: f_write_def)

lemma write_segments_same:
  "files w p = Some old \<Longrightarrow>
   files (write_segments w p segs) p = Some (old @ concat (map segment_line segs))"
  by (induction segs arbitrary: w old) (simp_all add: f_write_def)

lemma path_join_suffix_neq:
  assumes "s1 \<noteq> s2" "s1 \<noteq> []" "s2 \<noteq> []" "hd s1 = hd s2"
  shows "path_join a (b @ s1) \<noteq> path_join a (b @ s2)"
  using assms by (cases b) (auto simp: path_join_def)

lemma segments_file_neq_transcript_file:
  "segments_file output_dir audio_file \<noteq> transcript_file output_dir audio_file"
  unfolding segments_file_def transcript_file_def Let_def
  by (rule path_join_suffix_neq) simp_all

lemma transcribe_audio_Some:
  assumes "transcribe_audio wh w audio_file model_size output_dir = (w', Inr (Some r))"
  shows "files w' (transcript_file output_dir audio_file) = Some (result_text r)
         \<and> files w' (segments_file output_dir audio_file)
             = Some (concat (map segment_line (result_segments r)))"
proof -
  let ?t = "transcript_file output_dir audio_file"
  let ?s = "segments_file output_dir audio_file"
  from assms obtain model w1 where
    body: "transcribe_try wh model w1 audio_file output_dir = (w', Inr r)"
    by (auto simp: transcribe_audio_def Let_def except_Exception_def
             split: sum.splits prod.splits exn.splits)
  define w2 where "w2 = log_call (Transcribe audio_file) w1"
  from body have t: "?t \<notin> set (denied w2)" and s: "?s \<notin> set (denied w2)"
    and w': "w' = write_segments
                   (w2\<lparr>files := (files w2)(?t \<mapsto> result_text r, ?s \<mapsto> [])\<rparr>) ?s (result_segments r)"
    by (auto simp: transcribe_try_def Let_def w2_def write_file_def open_w_def f_write_def
             split: sum.splits prod.splits if_splits)
  have "files w' ?s = Some ([] @ concat (map segment_line (result_segments r)))"
    unfolding w' by (rule write_segments_same) simp
  moreover have "files w' ?t = Some (result_text r)"
    unfolding w' using segments_file_neq_transcript_file [of output_dir audio_file]
    by (simp add: write_segments_other)
  ultimately show ?thesis by simp
qed








lemma stem_talk: "stem ''talk.wav'' = ''talk''"
  by (simp add: stem_def path_name_def rfind_def)

lemma transcribe_audio_example:
  "snd (transcribe_audio whisper_example world0 ''talk.wav'' ''base'' ''./transcriptions'')
     = Inr (Some example_result)"
  by (simp add: transcribe_audio_def transcribe_try_def Let_def log_call_def mkdir_def
        except_Exception_def write_file_def open_w_def f_write_def world0_def whisper_example_def
        transcript_file_def segments_file_def stem_talk path_join_def)


subsection \<open>Where the artifacts are saved\<close>

lemma generate_blog_Some:
  assumes "generate_blog oa w input_file output_dir title method video_url = (w', Inr (Some c))"
  shows "files w' (blog_file output_dir input_file title) = Some c"
  using assms
  by (auto simp: generate_blog_def save_if_true_def write_file_def open_w_def f_write_def
           split: sum.splits prod.splits option.splits if_splits)

lemma summarize_text_Some:
  assumes "summarize_text tf oa w input_file output_dir method max_length = (w', Inr (Some c))"
  shows "files w' (summary_file output_dir input_file) = Some c"
  using assms
  by (auto simp: summarize_text_def save_if_true_def write_file_def open_w_def f_write_def
           split: sum.splits prod.splits option.splits if_splits)

text \<open>
  C8, as the code has it. The path of an artifact is a function of the arguments of the
  call: \<open>transcribe_audio\<close> saves the transcript in \<open>output_dir\<close> under the stem of
  the audio file followed by \<open>_transcript.txt\<close>; \<open>generate_blog\<close> saves the blog
  post in \<open>output_dir\<close> under \<open>safe_title\<close> followed by \<open>_blog.md\<close>, where
  \<open>safe_title\<close> comes from the title when one is given and from the stem of the
  summary file otherwise.
\<close>

theorem artifact_paths:
  "(transcribe_audio wh w audio_file model_size output_dir = (w1, Inr (Some r)) \<longrightarrow>
      files w1 (path_join output_dir (stem audio_file @ ''_transcript.txt''))
        = Some (result_text r))
   \<and> (generate_blog oa w' input_file blog_dir title method video_url
          = (w2, Inr (Some blog_content)) \<longrightarrow>
      files w2 (path_join blog_dir
         (str_replace (str_replace (str_lower
            (if title = []
             then str_title (str_replace (str_replace (stem input_file) ''_summary'' []) ''_'' '' '')
             else title)) '' '' ''_'') ''/'' ''_'' @ ''_blog.md'')) = Some blog_content)"
  using transcribe_audio_Some [of wh w audio_file model_size output_dir w1 r]
    generate_blog_Some [of oa w' input_file blog_dir title "method" video_url w2 blog_content]
  by (simp add: transcript_file_def blog_file_def Let_def)

lemma stem_abc_summary: "stem ''abc_summary.txt'' = ''abc_summary''"
  by (simp add: stem_def path_name_def rfind_def)

lemma blog_file_examples:
  "blog_file ''./blogs'' ''abc_summary.txt'' ''My Post'' = ''./blogs/my_post_blog.md''"
  "blog_file ''./blogs'' ''abc_summary.txt'' [] = ''./blogs/abc_blog.md''"
  by (simp_all add: blog_file_def Let_def stem_abc_summary str_replace_def str_lower_def
        str_title_def lower_char_def upper_char_def is_upper_def is_lower_def
        ascii_uppercase_def ascii_lowercase_def path_join_def)

lemma world_abc_facts:
  "files world_abc ''abc_summary.txt'' = Some ''A short summary.''"
  "mkdir world_abc ''./blogs'' = Inr ()"
  "denied world_abc = []"
  "files world_abc ''./blogs/my_post_blog.md'' = None"
  "files world_abc ''./blogs/abc_blog.md'' = None"
  by (simp_all add: mkdir_def world_abc_def)

lemma generate_blog_example_title:
  "generate_blog None world_abc ''abc_summary.txt'' ''./blogs'' ''My Post'' ''template'' []
     = (world_abc\<lparr>files := (files world_abc)(''./blogs/my_post_blog.md''
          \<mapsto> generate_blog_template world_abc (str_strip ''A short summary.'') ''My Post'' [])\<rparr>,
        Inr (Some (generate_blog_template world_abc (str_strip ''A short summary.'') ''My Post'' [])))"
  using generate_blog_template_run [of world_abc "''abc_summary.txt''" "''A short summary.''"
      "''./blogs''" "''My Post''" None "[]"]
  by (simp add: world_abc_facts blog_file_examples)

lemma generate_blog_example_no_title:
  "generate_blog None world_abc ''abc_summary.txt'' ''./blogs'' [] ''template'' []
     = (world_abc\<lparr>files := (files world_abc)(''./blogs/abc_blog.md''
          \<mapsto> generate_blog_template world_abc (str_strip ''A short summary.'') [] [])\<rparr>,
        Inr (Some (generate_blog_template world_abc (str_strip ''A short summary.'') [] [])))"
  using generate_blog_template_run [of world_abc "''abc_summary.txt''" "''A short summary.''"
      "''./blogs''" "[]" None "[]"]
  by (simp add: world_abc_facts blog_file_examples)

text \<open>
  C8, as the claim states it, fails: for the same summary file, the same output
  directory and the same stage, the blog post is saved at \<open>./blogs/my_post_blog.md\<close>
  when the title is \<open>My Post\<close> and at \<open>./blogs/abc_blog.md\<close> when no title is
  given, so the path is not derived from the source identifier and the stage name only;
  and there is no directory per stage in either path.
\<close>

theorem artifact_path_depends_on_title_counterexample:
  "files (fst (generate_blog None world_abc ''abc_summary.txt'' ''./blogs'' ''My Post''
                 ''template'' [])) ''./blogs/my_post_blog.md'' \<noteq> None
   \<and> files (fst (generate_blog None world_abc ''abc_summary.txt'' ''./blogs'' ''My Post''
                 ''template'' [])) ''./blogs/abc_blog.md'' = None
   \<and> files (fst (generate_blog None world_abc ''abc_summary.txt'' ''./blogs'' []
                 ''template'' [])) ''./blogs/abc_blog.md'' \<noteq> None
   \<and> files (fst (generate_blog None world_abc ''abc_summary.txt'' ''./blogs'' []
                 ''template'' [])) ''./blogs/my_post_blog.md'' = None"
  unfolding generate_blog_example_title generate_blog_example_no_title
  by (simp add: world_abc_facts)

theorem artifact_paths_witness:
  "snd (transcribe_audio whisper_example world0 ''talk.wav'' ''base'' ''./transcriptions'')
     = Inr (Some example_result)
   \<and> files (fst (transcribe_audio whisper_example world0 ''talk.wav'' ''base'' ''./transcriptions''))
        ''./transcriptions/talk_transcript.txt'' = Some '' Hello world. Bye.''
   \<and> snd (generate_blog None world_abc ''abc_summary.txt'' ''./blogs'' ''My Post'' ''template'' [])
     = Inr (Some (generate_blog_template world_abc (str_strip ''A short summary.'') ''My Post'' []))
   \<and> files (fst (generate_blog None world_abc ''abc_summary.txt'' ''./blogs'' ''My Post''
                    ''template'' [])) ''./blogs/my_post_blog.md''
     = Some (generate_blog_template world_abc (str_strip ''A short summary.'') ''My Post'' [])"
proof -
  have h1: "transcribe_audio whisper_example world0 ''talk.wav'' ''base'' ''./transcriptions''
     = (fst (transcribe_audio whisper_example world0 ''talk.wav'' ''base'' ''./transcriptions''),
        Inr (Some example_result))"
    using transcribe_audio_example by (simp add: prod_eq_iff)
  have h2: "generate_blog None world_abc ''abc_summary.txt'' ''./blogs'' ''My Post'' ''template'' []
     = (fst (generate_blog None world_abc ''abc_summary.txt'' ''./blogs'' ''My Post''
               ''template'' []),
        Inr (Some (generate_blog_template world_abc (str_strip ''A short summary.'') ''My Post'' [])))"
    by (simp add: generate_blog_example_title)
  have p: "blog_file ''./blogs'' ''abc_summary.txt'' ''My Post'' = ''./blogs/my_post_blog.md''"
    by (rule blog_file_examples)
  from artifact_paths [of whisper_example world0 "''talk.wav''" "''base''" "''./transcriptions''"
      "fst (transcribe_audio whisper_example world0 ''talk.wav'' ''base'' ''./transcriptions'')"
      example_result
      None world_abc "''abc_summary.txt''" "''./blogs''" "''My Post''" "''template''" "[]"
      "fst (generate_blog None world_abc ''abc_summary.txt'' ''./blogs'' ''My Post'' ''template'' [])"
      "generate_blog_template world_abc (str_strip ''A short summary.'') ''My Post'' []"]
    h1 h2
  have "files (fst (transcribe_audio whisper_example world0 ''talk.wav'' ''base''
                      ''./transcriptions''))
          (path_join ''./transcriptions'' (stem ''talk.wav'' @ ''_transcript.txt''))
          = Some (result_text example_result)
        \<and> files (fst (generate_blog None world_abc ''abc_summary.txt'' ''./blogs'' ''My Post''
                    ''template'' []))
            (blog_file ''./blogs'' ''abc_summary.txt'' ''My Post'')
          = Some (generate_blog_template world_abc (str_strip ''A short summary.'') ''My Post'' [])"
    by (simp add: blog_file_def Let_def)
  then show ?thesis
    using transcribe_audio_example
    by (simp add: p stem_talk path_join_def example_result_def generate_blog_example_title)
qed

subsection \<open>Running twice, and the orchestration stubs\<close>










text \<open>
  C5. The claim: a malformed source reference is refused with \<open>InvalidInput\<close>, and
  \<open>validate_video_url\<close> answers \<open>True\<close> on a YouTube URL and \<open>False\<close> on
  anything else. The code: \<open>validate_video_url\<close> answers \<^verbatim>\<open>None\<close> on both, and
  \<open>process_video\<close> on \<open>not-a-url\<close> returns \<^verbatim>\<open>None\<close> and raises nothing.
\<close>

theorem validate_video_url_returns_None:
  "validate_video_url ''https://www.youtube.com/watch?v=dQw4w9WgXcQ'' = None
   \<and> validate_video_url ''not-a-url'' = None
   \<and> process_video world0 ''not-a-url'' None None = (world0, Inr None)"
  by (simp add: validate_video_url_def process_video_def)

end
